theory Spec2Isabelle
  imports Complex_Main "HOL-Library.AList"
begin

section \<open>The KHQR payment bot: data model\<close>

text \<open>
  The program is a single Python module. Its state is the dictionary
  \<^verbatim>\<open>active_transactions\<close> (bill number to transaction data), guarded by
  \<^verbatim>\<open>transaction_lock\<close>; everything else it does is a call to an external service
  (the Bakong client, the Telegram bot). The model passes the dictionary explicitly and
  records every external call and every lock operation in a trace.

  The message texts are Khmer strings built with f-strings; they are modelled by one
  constructor per text, carrying the values interpolated into it.
\<close>

text \<open>Line 34: \<^verbatim>\<open>EXPIRATION_SECONDS = 5 * 60\<close>.\<close>

definition EXPIRATION_SECONDS :: int where
  "EXPIRATION_SECONDS = 5 * 60"

text \<open>Line 36: \<^verbatim>\<open>CHECK_INTERVAL_SECONDS = 30\<close>.\<close>

definition CHECK_INTERVAL_SECONDS :: nat where
  "CHECK_INTERVAL_SECONDS = 30"

text \<open>Line 38: \<^verbatim>\<open>CONFIRM_CALLBACK_PREFIX = "confirm_"\<close>.\<close>

definition CONFIRM_CALLBACK_PREFIX :: string where
  "CONFIRM_CALLBACK_PREFIX = ''confirm_''"

section \<open>Python floats\<close>

text \<open>
  A Python float is an IEEE 754 double: a finite value, an infinity or a NaN. The readings of
  \<^verbatim>\<open>time.time()\<close> are finite doubles and enter the model as reals; what the program
  computes from them is rounded as the machine rounds it.
\<close>

datatype pyfloat = Finite real | PosInf | NegInf | NaN

text \<open>\<^verbatim>\<open>int.bit_length\<close>: the number of binary digits of a natural number.\<close>

fun bit_length :: "nat \<Rightarrow> nat" where
  "bit_length n = (if n = 0 then 0 else Suc (bit_length (n div 2)))"

declare bit_length.simps [simp del]

definition pow2 :: "int \<Rightarrow> real" where
  "pow2 k = (if 0 \<le> k then 2 ^ nat k else 1 / 2 ^ nat (- k))"

text \<open>The exponent \<open>e\<close> with \<open>2 ^ e \<le> \<bar>x\<bar> < 2 ^ (e + 1)\<close>, for \<open>x\<close> other than zero.\<close>

definition binary_exponent :: "real \<Rightarrow> int" where
  "binary_exponent x =
     (if 1 \<le> \<bar>x\<bar> then int (bit_length (nat \<lfloor>\<bar>x\<bar>\<rfloor>)) - 1
      else - int (bit_length (nat \<lceil>1 / \<bar>x\<bar>\<rceil> - 1)))"

text \<open>Rounding to the nearest integer, a tie going to the even one.\<close>

definition round_half_even :: "real \<Rightarrow> int" where
  "round_half_even q =
     (let f = \<lfloor>q\<rfloor>; r = q - of_int f
      in if r < 1 / 2 then f else if 1 / 2 < r then f + 1 else if even f then f else f + 1)"

text \<open>
  The double nearest to a real, ties to even: 53 significant bits, the spacing of the
  subnormal range below \<open>2 ^ (- 1022)\<close>, and an infinity when the rounded value is out of
  range. The two zeros are not told apart.
\<close>

definition double_round :: "real \<Rightarrow> pyfloat" where
  "double_round x =
     (if x = 0 then Finite 0
      else
        let u = pow2 (max (binary_exponent x) (- 1022) - 52);
            r = of_int (round_half_even (x / u)) * u
        in if 2 ^ 1024 \<le> r then PosInf else if r \<le> - (2 ^ 1024) then NegInf else Finite r)"

text \<open>Sum and product of two finite floats: the exact result, rounded.\<close>

definition double_add :: "real \<Rightarrow> real \<Rightarrow> pyfloat" where
  "double_add x y = double_round (x + y)"

definition double_mul :: "real \<Rightarrow> real \<Rightarrow> pyfloat" where
  "double_mul x y = double_round (x * y)"

text \<open>\<^verbatim>\<open>x < y\<close> on floats: a comparison with a NaN is false.\<close>

fun float_less :: "pyfloat \<Rightarrow> pyfloat \<Rightarrow> bool" where
  "float_less NaN y = False"
| "float_less x NaN = False"
| "float_less (Finite a) (Finite b) = (a < b)"
| "float_less x NegInf = False"
| "float_less PosInf y = False"
| "float_less NegInf y = True"
| "float_less x PosInf = True"

section \<open>Transactions, events and the outside world\<close>

text \<open>
  Line 41: the value stored for a bill number,
  \<^verbatim>\<open>{ 'md5_hash': str, 'expiry_time': float, 'chat_id': int, 'message_id': int }\<close>.
\<close>

record transaction =
  md5_hash :: string
  expiry_time :: pyfloat
  chat_id :: int
  message_id :: int

text \<open>
  \<^verbatim>\<open>active_transactions\<close> is a Python dict: keys are unique and iteration follows
  insertion order. The order decides which records a scheduler pass reaches before an
  exception ends it, so the dict is an association list.
\<close>

type_synonym transactions = "(string \<times> transaction) list"

text \<open>Python exceptions, as far as the handlers of the module tell them apart.\<close>

datatype exn = ValueError | OtherError

text \<open>
  The description of a payment: the third word group of the command, or the default
  \<^verbatim>\<open>f"Payment Ref {time.time():.0f}"\<close>, which carries a clock reading.
\<close>

datatype description = Given string | PaymentRef real

text \<open>The texts the bot sends, one constructor per f-string of the module.\<close>

datatype message_text =
    PaymentCompleted string string  \<comment> \<open>line 79: bill number, payment status\<close>
  | CheckError                      \<comment> \<open>line 101\<close>
  | ExpiredText string              \<comment> \<open>line 139: bill number\<close>
  | NotTracked string               \<comment> \<open>line 306: bill number\<close>
  | StillUnpaid string              \<comment> \<open>line 339: bill number\<close>
  | NotInitialized                  \<comment> \<open>line 181\<close>
  | AmountMissing                   \<comment> \<open>line 188\<close>
  | Generating pyfloat string       \<comment> \<open>line 200: amount, bill number\<close>
  | ImageError                      \<comment> \<open>line 226\<close>
  | AmountFormat                    \<comment> \<open>line 272\<close>
  | GenerationFailed exn            \<comment> \<open>line 275\<close>

text \<open>The captions the confirm handler writes over the QR message (lines 297 and 324-326).\<close>

datatype caption = NoLongerCheckable string | UnpaidStatus string

text \<open>
  One event per call that leaves the process, in the order the calls are made, together
  with the acquisitions and releases of \<^verbatim>\<open>transaction_lock\<close> and the scheduler's
  sleep. An event records that the call was made, whether or not it raised.
\<close>

datatype event =
    CheckPayment string                        \<comment> \<open>\<^verbatim>\<open>khqr_client.check_payment(md5_hash)\<close>\<close>
  | DeleteMessage int int                      \<comment> \<open>\<^verbatim>\<open>bot.delete_message(chat_id, message_id)\<close>\<close>
  | SendMessage int message_text             \<comment> \<open>\<^verbatim>\<open>bot.send_message(chat_id, text)\<close>\<close>
  | EditMessageCaption int int caption bool    \<comment> \<open>chat, message, caption, keyboard kept\<close>
  | AnswerCallbackQuery string                 \<comment> \<open>\<^verbatim>\<open>bot.answer_callback_query(call.id, ...)\<close>\<close>
  | ReplyTo int message_text                 \<comment> \<open>\<^verbatim>\<open>bot.reply_to(message, text)\<close>\<close>
  | SendPhoto int string string                \<comment> \<open>chat, bill number, callback data of the button\<close>
  | Acquire                                    \<comment> \<open>entering \<^verbatim>\<open>with transaction_lock\<close>\<close>
  | Release                                    \<comment> \<open>leaving it\<close>
  | Sleep nat                                  \<comment> \<open>\<^verbatim>\<open>time.sleep(seconds)\<close>\<close>

record state =
  active_transactions :: transactions
  trace :: "event list"

text \<open>
  The outside world. Each service answers a call as a function of the calls made so far
  and of the arguments, so the same call may succeed once and raise later. \<open>Inl\<close> is the
  exception raised. \<open>khqr_client_ok\<close> is false when the initialisation at lines 49-54
  failed and left \<^verbatim>\<open>khqr_client = None\<close>; calling a method of \<^verbatim>\<open>None\<close>
  raises, which the fields for the client's methods cover by returning \<open>Inl\<close>.
  \<open>text_split\<close> is \<^verbatim>\<open>str.split(maxsplit=2)\<close>, \<open>to_float\<close> is
  \<^verbatim>\<open>float(...)\<close>, with \<open>None\<close> for its \<^verbatim>\<open>ValueError\<close>, and \<open>time_format\<close> is
  \<^verbatim>\<open>time.strftime('%I:%M:%S %p', time.localtime(...))\<close>, which raises on a time
  out of range; all three are of the Python library.
\<close>

record env =
  khqr_client_ok :: bool
  check_payment :: "event list \<Rightarrow> string \<Rightarrow> exn + string"
  delete_message :: "event list \<Rightarrow> int \<Rightarrow> int \<Rightarrow> exn + unit"
  send_message :: "event list \<Rightarrow> int \<Rightarrow> message_text \<Rightarrow> exn + unit"
  edit_message_caption :: "event list \<Rightarrow> int \<Rightarrow> int \<Rightarrow> caption \<Rightarrow> exn + unit"
  answer_callback_query :: "event list \<Rightarrow> string \<Rightarrow> exn + unit"
  reply_to :: "event list \<Rightarrow> int \<Rightarrow> message_text \<Rightarrow> exn + unit"
  send_photo :: "event list \<Rightarrow> int \<Rightarrow> string \<Rightarrow> exn + int"
  create_qr :: "pyfloat \<Rightarrow> string \<Rightarrow> description \<Rightarrow> exn + string"
  generate_md5 :: "string \<Rightarrow> exn + string"
  qr_image :: "string \<Rightarrow> exn + unit"
  text_split :: "string \<Rightarrow> string list"
  to_float :: "string \<Rightarrow> pyfloat option"
  time_format :: "pyfloat \<Rightarrow> exn + string"

section \<open>Primitive steps\<close>

definition emit :: "event \<Rightarrow> state \<Rightarrow> state" where
  "emit e st = st\<lparr>trace := trace st @ [e]\<rparr>"

definition khqr_check_payment :: "env \<Rightarrow> string \<Rightarrow> state \<Rightarrow> (exn + string) \<times> state" where
  "khqr_check_payment E md5 st = (check_payment E (trace st) md5, emit (CheckPayment md5) st)"

definition bot_delete_message :: "env \<Rightarrow> int \<Rightarrow> int \<Rightarrow> state \<Rightarrow> (exn + unit) \<times> state" where
  "bot_delete_message E c m st = (delete_message E (trace st) c m, emit (DeleteMessage c m) st)"

definition bot_send_message :: "env \<Rightarrow> int \<Rightarrow> message_text \<Rightarrow> state \<Rightarrow> (exn + unit) \<times> state" where
  "bot_send_message E c t st = (send_message E (trace st) c t, emit (SendMessage c t) st)"

definition bot_edit_message_caption ::
  "env \<Rightarrow> int \<Rightarrow> int \<Rightarrow> caption \<Rightarrow> bool \<Rightarrow> state \<Rightarrow> (exn + unit) \<times> state" where
  "bot_edit_message_caption E c m cap kb st =
     (edit_message_caption E (trace st) c m cap, emit (EditMessageCaption c m cap kb) st)"

definition bot_answer_callback_query :: "env \<Rightarrow> string \<Rightarrow> state \<Rightarrow> (exn + unit) \<times> state" where
  "bot_answer_callback_query E cid st =
     (answer_callback_query E (trace st) cid, emit (AnswerCallbackQuery cid) st)"

definition bot_reply_to :: "env \<Rightarrow> int \<Rightarrow> message_text \<Rightarrow> state \<Rightarrow> (exn + unit) \<times> state" where
  "bot_reply_to E c t st = (reply_to E (trace st) c t, emit (ReplyTo c t) st)"

definition bot_send_photo :: "env \<Rightarrow> int \<Rightarrow> string \<Rightarrow> string \<Rightarrow> state \<Rightarrow> (exn + int) \<times> state" where
  "bot_send_photo E c bill cb st = (send_photo E (trace st) c bill, emit (SendPhoto c bill cb) st)"

text \<open>\<^verbatim>\<open>key in active_transactions\<close>.\<close>

definition has_key :: "transactions \<Rightarrow> string \<Rightarrow> bool" where
  "has_key txs k = (k \<in> set (map fst txs))"

text \<open>
  \<^verbatim>\<open>if key in active_transactions: del active_transactions[key]\<close>, the guarded
  deletion of lines 88-89 and 155-157.
\<close>

definition del_if_present :: "string \<Rightarrow> state \<Rightarrow> state" where
  "del_if_present k st =
     (if has_key (active_transactions st) k
      then st\<lparr>active_transactions := AList.delete k (active_transactions st)\<rparr>
      else st)"

section \<open>check_payment_status (lines 58-104)\<close>

text \<open>
  The \<^verbatim>\<open>except Exception\<close> handler of lines 97-104: it sends the check-error text,
  ignores a failure of that send, and returns \<^verbatim>\<open>False\<close>.
\<close>

definition check_failed :: "env \<Rightarrow> int \<Rightarrow> state \<Rightarrow> bool \<times> state" where
  "check_failed E chat st = (False, snd (bot_send_message E chat CheckError st))"

definition check_payment_status ::
  "env \<Rightarrow> string \<Rightarrow> string \<Rightarrow> int \<Rightarrow> int \<Rightarrow> state \<Rightarrow> bool \<times> state" where
  "check_payment_status E bill_number md5 chat msg st =
     (case khqr_check_payment E md5 st of
        (Inl e, st1) \<Rightarrow> check_failed E chat st1
      | (Inr payment_status, st1) \<Rightarrow>
          if payment_status = ''PAID'' then
            let st2 = (if msg \<noteq> 0 then snd (bot_delete_message E chat msg st1) else st1) in
            (case bot_send_message E chat (PaymentCompleted bill_number payment_status) st2 of
               (Inl e, st3) \<Rightarrow> check_failed E chat st3
             | (Inr u, st3) \<Rightarrow>
                 (True, emit Release (del_if_present bill_number (emit Acquire st3))))
          else (False, st1))"

section \<open>check_and_cleanup_transactions (lines 108-161)\<close>

text \<open>Lines 117-119: the snapshot \<^verbatim>\<open>list(active_transactions.items())\<close> under the lock.\<close>

definition take_snapshot :: "state \<Rightarrow> transactions \<times> state" where
  "take_snapshot st = (active_transactions st, emit Release (emit Acquire st))"

text \<open>
  Lines 121-150: the \<^verbatim>\<open>for\<close> loop over the snapshot. \<open>now\<close> is
  \<^verbatim>\<open>current_time\<close>, read once before the loop; \<open>rm\<close> is
  \<^verbatim>\<open>transactions_to_remove\<close>. The send of the expiry text (line 138) is outside any
  \<^verbatim>\<open>try\<close>, so an exception there leaves the loop.
\<close>

fun process_items ::
  "env \<Rightarrow> real \<Rightarrow> transactions \<Rightarrow> string list \<Rightarrow> state \<Rightarrow> (exn + string list) \<times> state" where
  "process_items E now [] rm st = (Inr rm, st)"
| "process_items E now ((bill_number, d) # items) rm st =
     (if float_less (expiry_time d) (Finite now) then
        let st1 = (if message_id d \<noteq> 0
                   then snd (bot_delete_message E (chat_id d) (message_id d) st) else st) in
        (case bot_send_message E (chat_id d) (ExpiredText bill_number) st1 of
           (Inl e, st2) \<Rightarrow> (Inl e, st2)
         | (Inr u, st2) \<Rightarrow> process_items E now items (rm @ [bill_number]) st2)
      else
        (case check_payment_status E bill_number (md5_hash d) (chat_id d) (message_id d) st of
           (payment_confirmed, st1) \<Rightarrow>
             process_items E now items
               (if payment_confirmed then rm @ [bill_number] else rm) st1))"

text \<open>Lines 153-158: the removal of the marked keys under the lock.\<close>

definition remove_marked :: "string list \<Rightarrow> state \<Rightarrow> state" where
  "remove_marked rm st = emit Release (fold del_if_present rm (emit Acquire st))"

text \<open>
  The rest of one iteration of the \<^verbatim>\<open>while True\<close> loop once the snapshot is taken:
  the \<^verbatim>\<open>for\<close> loop, the removal and the sleep.
\<close>

definition finish_pass :: "env \<Rightarrow> real \<Rightarrow> transactions \<Rightarrow> state \<Rightarrow> (exn + unit) \<times> state" where
  "finish_pass E now items_to_check st =
     (case process_items E now items_to_check [] st of
        (Inl e, st2) \<Rightarrow> (Inl e, st2)
      | (Inr rm, st2) \<Rightarrow> (Inr (), emit (Sleep CHECK_INTERVAL_SECONDS) (remove_marked rm st2)))"

text \<open>One iteration of the \<^verbatim>\<open>while True\<close> loop; \<open>now\<close> is the reading of line 113.\<close>

definition scheduler_pass :: "env \<Rightarrow> real \<Rightarrow> state \<Rightarrow> (exn + unit) \<times> state" where
  "scheduler_pass E now st =
     (case take_snapshot st of
        (items_to_check, st1) \<Rightarrow> finish_pass E now items_to_check st1)"

text \<open>
  The loop itself never ends of its own accord. It is run here for the iterations whose
  clock readings are given: \<open>Inr ()\<close> means the thread is still running after them,
  \<open>Inl e\<close> that the exception \<open>e\<close> ended it.
\<close>

fun check_and_cleanup_transactions :: "env \<Rightarrow> real list \<Rightarrow> state \<Rightarrow> (exn + unit) \<times> state" where
  "check_and_cleanup_transactions E [] st = (Inr (), st)"
| "check_and_cleanup_transactions E (current_time # later) st =
     (case scheduler_pass E current_time st of
        (Inl e, st1) \<Rightarrow> (Inl e, st1)
      | (Inr u, st1) \<Rightarrow> check_and_cleanup_transactions E later st1)"

section \<open>The confirm button (lines 240 and 279-339)\<close>

text \<open>Line 240: \<^verbatim>\<open>callback_data = f"{CONFIRM_CALLBACK_PREFIX}{bill_number}"\<close>.\<close>

definition callback_data_of :: "string \<Rightarrow> string" where
  "callback_data_of bill_number = CONFIRM_CALLBACK_PREFIX @ bill_number"

text \<open>Line 287: \<^verbatim>\<open>bill_number = call.data[len(CONFIRM_CALLBACK_PREFIX):]\<close>.\<close>

definition bill_number_of_callback :: "string \<Rightarrow> string" where
  "bill_number_of_callback data = drop (length CONFIRM_CALLBACK_PREFIX) data"

text \<open>Line 279: the filter \<^verbatim>\<open>call.data.startswith(CONFIRM_CALLBACK_PREFIX)\<close>.\<close>

definition is_confirm_callback :: "string \<Rightarrow> bool" where
  "is_confirm_callback data =
     (take (length CONFIRM_CALLBACK_PREFIX) data = CONFIRM_CALLBACK_PREFIX)"

text \<open>
  What the handler reads of the callback query: \<^verbatim>\<open>call.id\<close>, \<^verbatim>\<open>call.data\<close>,
  and of \<^verbatim>\<open>call.message\<close> the chat id, the message id and the caption, which is
  \<^verbatim>\<open>None\<close> for a message without one.
\<close>

record callback =
  call_id :: string
  call_data :: string
  call_chat_id :: int
  call_message_id :: int
  call_caption :: "string option"

text \<open>
  Lines 293-303 and 322-337: the caption edits inside \<^verbatim>\<open>try\<close>. Building the new
  caption from a caption that is \<^verbatim>\<open>None\<close> raises before the bot is called; that
  exception and any the bot raises are caught and printed.
\<close>

definition try_edit_caption ::
  "env \<Rightarrow> int \<Rightarrow> int \<Rightarrow> string option \<Rightarrow> (string \<Rightarrow> caption) \<Rightarrow> bool \<Rightarrow> state \<Rightarrow> state" where
  "try_edit_caption E c m old mk kb st =
     (case old of
        None \<Rightarrow> st
      | Some cap \<Rightarrow> snd (bot_edit_message_caption E c m (mk cap) kb st))"

text \<open>
  The handler. From line 290 to the \<^verbatim>\<open>return\<close> at line 309 or to line 315 the
  code is inside \<^verbatim>\<open>with transaction_lock\<close>; the lock is released on every way
  out of the block, also by an exception. \<^verbatim>\<open>active_transactions.get\<close> at line 312
  cannot miss, the membership test of line 291 being made under the same lock; the model
  gives the exception that subscripting \<^verbatim>\<open>None\<close> would raise.
\<close>

definition handle_confirm_payment :: "env \<Rightarrow> callback \<Rightarrow> state \<Rightarrow> (exn + unit) \<times> state" where
  "handle_confirm_payment E call st =
     (case bot_answer_callback_query E (call_id call) st of
        (Inl e, st1) \<Rightarrow> (Inl e, st1)
      | (Inr u, st1) \<Rightarrow>
          let bill_number = bill_number_of_callback (call_data call);
              st2 = emit Acquire st1
          in
          if \<not> has_key (active_transactions st2) bill_number then
            let st3 = try_edit_caption E (call_chat_id call) (call_message_id call)
                        (call_caption call) NoLongerCheckable False st2
            in
            (case bot_send_message E (call_chat_id call) (NotTracked bill_number) st3 of
               (r, st4) \<Rightarrow> (r, emit Release st4))
          else
            (case map_of (active_transactions st2) bill_number of
               None \<Rightarrow> (Inl OtherError, emit Release st2)
             | Some d \<Rightarrow>
                 let st3 = emit Release st2 in
                 (case check_payment_status E bill_number (md5_hash d) (chat_id d) (message_id d) st3 of
                    (payment_confirmed, st4) \<Rightarrow>
                      if \<not> payment_confirmed then
                        let st5 = try_edit_caption E (chat_id d) (message_id d)
                                    (call_caption call) UnpaidStatus True st4
                        in bot_send_message E (chat_id d) (StillUnpaid bill_number) st5
                      else (Inr (), st4))))"

section \<open>The /pay command (lines 177-275)\<close>

record message =
  msg_chat_id :: int
  msg_text :: string

text \<open>
  \<^verbatim>\<open>int(x)\<close> on a float truncates towards zero; it raises
  \<^verbatim>\<open>OverflowError\<close> on an infinity and \<^verbatim>\<open>ValueError\<close> on a NaN.
\<close>

fun py_int :: "pyfloat \<Rightarrow> exn + int" where
  "py_int (Finite x) = Inr (if 0 \<le> x then \<lfloor>x\<rfloor> else \<lceil>x\<rceil>)"
| "py_int PosInf = Inl OtherError"
| "py_int NegInf = Inl OtherError"
| "py_int NaN = Inl ValueError"

text \<open>The decimal digits of an integer, as \<^verbatim>\<open>str\<close> and f-strings print it.\<close>

fun digits_of_nat :: "nat \<Rightarrow> string" where
  "digits_of_nat n =
     (if n < 10 then [''0123456789'' ! n]
      else digits_of_nat (n div 10) @ [''0123456789'' ! (n mod 10)])"

declare digits_of_nat.simps [simp del]

definition str_of_int :: "int \<Rightarrow> string" where
  "str_of_int i = (if i < 0 then CHR ''-'' # digits_of_nat (nat (- i)) else digits_of_nat (nat i))"

text \<open>Line 195: \<^verbatim>\<open>bill_number = f"TRX{int(time.time() * 1000)}"\<close>.\<close>

definition make_bill_number :: "real \<Rightarrow> exn + string" where
  "make_bill_number t =
     (case py_int (double_mul t 1000) of
        Inl e \<Rightarrow> Inl e
      | Inr i \<Rightarrow> Inr (''TRX'' @ str_of_int i))"

text \<open>Line 196: \<^verbatim>\<open>expiry_time = time.time() + EXPIRATION_SECONDS\<close>.\<close>

definition make_expiry_time :: "real \<Rightarrow> pyfloat" where
  "make_expiry_time t = double_add t (of_int EXPIRATION_SECONDS)"

text \<open>Lines 263-269: \<^verbatim>\<open>active_transactions[bill_number] = {...}\<close> under the lock.\<close>

definition store_transaction :: "string \<Rightarrow> transaction \<Rightarrow> state \<Rightarrow> state" where
  "store_transaction bill_number d st =
     emit Release
       ((emit Acquire st)\<lparr>active_transactions :=
          AList.update bill_number d (active_transactions (emit Acquire st))\<rparr>)"

text \<open>
  Lines 185-269, the body of the \<^verbatim>\<open>try\<close>. \<open>t_ref\<close>, \<open>t_bill\<close> and \<open>t_exp\<close>
  are the readings of \<^verbatim>\<open>time.time()\<close> at lines 192, 195 and 196. An \<open>Inl\<close> result
  is an exception on its way to the \<^verbatim>\<open>except\<close> clauses of lines 271-275.
\<close>

definition pay_body ::
  "env \<Rightarrow> real \<Rightarrow> real \<Rightarrow> real \<Rightarrow> message \<Rightarrow> state \<Rightarrow> (exn + unit) \<times> state" where
  "pay_body E t_ref t_bill t_exp m st =
     (let parts = text_split E (msg_text m) in
      if length parts < 2 then bot_reply_to E (msg_chat_id m) AmountMissing st
      else
        (case to_float E (parts ! 1) of
           None \<Rightarrow> (Inl ValueError, st)
         | Some amount \<Rightarrow>
             let description = (if length parts = 3 then Given (parts ! 2) else PaymentRef t_ref)
             in
             (case make_bill_number t_bill of
                Inl e \<Rightarrow> (Inl e, st)
              | Inr bill_number \<Rightarrow>
                  let expiry = make_expiry_time t_exp in
                  (case time_format E expiry of
                     Inl e \<Rightarrow> (Inl e, st)
                   | Inr expiry_datetime \<Rightarrow>
                       (case bot_reply_to E (msg_chat_id m) (Generating amount bill_number) st of
                          (Inl e, st1) \<Rightarrow> (Inl e, st1)
                        | (Inr u, st1) \<Rightarrow>
                            (case create_qr E amount bill_number description of
                               Inl e \<Rightarrow> (Inl e, st1)
                             | Inr qr_string \<Rightarrow>
                                 (case generate_md5 E qr_string of
                                    Inl e \<Rightarrow> (Inl e, st1)
                                  | Inr md5 \<Rightarrow>
                                      (case qr_image E qr_string of
                                         Inl img_e \<Rightarrow>
                                           bot_reply_to E (msg_chat_id m) ImageError st1
                                       | Inr img \<Rightarrow>
                                           (case bot_send_photo E (msg_chat_id m) bill_number
                                                   (callback_data_of bill_number) st1 of
                                              (Inl e, st2) \<Rightarrow> (Inl e, st2)
                                            | (Inr sent_message_id, st2) \<Rightarrow>
                                                (Inr (),
                                                 store_transaction bill_number
                                                   \<lparr>md5_hash = md5, expiry_time = expiry,
                                                    chat_id = msg_chat_id m,
                                                    message_id = sent_message_id\<rparr>
                                                   st2))))))))))"

definition generate_khqr_payment ::
  "env \<Rightarrow> real \<Rightarrow> real \<Rightarrow> real \<Rightarrow> message \<Rightarrow> state \<Rightarrow> (exn + unit) \<times> state" where
  "generate_khqr_payment E t_ref t_bill t_exp m st =
     (if \<not> khqr_client_ok E then bot_reply_to E (msg_chat_id m) NotInitialized st
      else
        (case pay_body E t_ref t_bill t_exp m st of
           (Inl ValueError, st1) \<Rightarrow> bot_reply_to E (msg_chat_id m) AmountFormat st1
         | (Inl OtherError, st1) \<Rightarrow> bot_reply_to E (msg_chat_id m) (GenerationFailed OtherError) st1
         | (Inr u, st1) \<Rightarrow> (Inr (), st1)))"

section \<open>Observations on traces\<close>

text \<open>
  Whether some call to an external service is made while \<^verbatim>\<open>transaction_lock\<close> is
  held. The first argument says whether the lock is held at the start of the trace.
\<close>

fun external_call :: "event \<Rightarrow> bool" where
  "external_call Acquire = False"
| "external_call Release = False"
| "external_call (Sleep n) = False"
| "external_call e = True"

fun call_under_lock :: "bool \<Rightarrow> event list \<Rightarrow> bool" where
  "call_under_lock held [] = False"
| "call_under_lock held (Acquire # es) = call_under_lock True es"
| "call_under_lock held (Release # es) = call_under_lock False es"
| "call_under_lock held (e # es) = ((held \<and> external_call e) \<or> call_under_lock held es)"

fun is_check_payment :: "event \<Rightarrow> bool" where
  "is_check_payment (CheckPayment md5) = True"
| "is_check_payment e = False"

section \<open>Concrete inputs\<close>

text \<open>A world in which every service answers, and the payment network reports PAID.\<close>

definition world_paid :: env where
  "world_paid =
     \<lparr>khqr_client_ok = True,
      check_payment = (\<lambda>h md5. Inr ''PAID''),
      delete_message = (\<lambda>h c m. Inr ()),
      send_message = (\<lambda>h c t. Inr ()),
      edit_message_caption = (\<lambda>h c m cap. Inr ()),
      answer_callback_query = (\<lambda>h q. Inr ()),
      reply_to = (\<lambda>h c t. Inr ()),
      send_photo = (\<lambda>h c b. Inr (int (length h))),
      create_qr = (\<lambda>a b d. Inr (''khqr:'' @ b)),
      generate_md5 = (\<lambda>q. Inr (''md5:'' @ q)),
      qr_image = (\<lambda>q. Inr ()),
      text_split = (\<lambda>s. if s = ''/pay 5000'' then [''/pay'', ''5000''] else []),
      to_float = (\<lambda>s. if s = ''5000'' then Some (Finite 5000) else None),
      time_format = (\<lambda>x. Inr ''12:05:01 AM'')\<rparr>"

text \<open>The same world with the payment network unreachable: every status check raises.\<close>

definition world_oracle_down :: env where
  "world_oracle_down = world_paid\<lparr>check_payment := (\<lambda>h md5. Inl OtherError)\<rparr>"

text \<open>The same world with the bot unable to send messages: every \<^verbatim>\<open>send_message\<close> raises.\<close>

definition world_send_down :: env where
  "world_send_down = world_paid\<lparr>send_message := (\<lambda>h c t. Inl OtherError)\<rparr>"

definition tx1 :: transaction where
  "tx1 = \<lparr>md5_hash = ''m1'', expiry_time = Finite 1000, chat_id = 5, message_id = 9\<rparr>"

definition tx2 :: transaction where
  "tx2 = \<lparr>md5_hash = ''m2'', expiry_time = Finite 5000, chat_id = 6, message_id = 11\<rparr>"

definition no_transactions :: state where
  "no_transactions = \<lparr>active_transactions = [], trace = []\<rparr>"

definition one_transaction :: state where
  "one_transaction = \<lparr>active_transactions = [(''TRX1'', tx1)], trace = []\<rparr>"

definition two_transactions :: state where
  "two_transactions = \<lparr>active_transactions = [(''TRX1'', tx1), (''TRX2'', tx2)], trace = []\<rparr>"

text \<open>A press of the confirm button under the QR message of \<open>TRX1\<close>.\<close>

definition press1 :: callback where
  "press1 = \<lparr>call_id = ''q1'', call_data = ''confirm_TRX1'', call_chat_id = 5,
             call_message_id = 9, call_caption = Some ''caption''\<rparr>"

definition pay5000 :: message where
  "pay5000 = \<lparr>msg_chat_id = 5, msg_text = ''/pay 5000''\<rparr>"

section \<open>Basic facts\<close>

lemmas call_defs = emit_def khqr_check_payment_def bot_delete_message_def bot_send_message_def
  bot_edit_message_caption_def bot_answer_callback_query_def bot_reply_to_def bot_send_photo_def

lemmas run_defs = call_defs has_key_def del_if_present_def check_failed_def
  check_payment_status_def take_snapshot_def remove_marked_def finish_pass_def
  scheduler_pass_def try_edit_caption_def handle_confirm_payment_def
  bill_number_of_callback_def callback_data_of_def CONFIRM_CALLBACK_PREFIX_def
  CHECK_INTERVAL_SECONDS_def store_transaction_def pay_body_def
  generate_khqr_payment_def Let_def

lemmas input_defs = world_paid_def world_oracle_down_def world_send_down_def tx1_def tx2_def
  no_transactions_def one_transaction_def two_transactions_def press1_def pay5000_def

lemma emit_fields [simp]:
  "active_transactions (emit e st) = active_transactions st"
  "trace (emit e st) = trace st @ [e]"
  by (simp_all add: emit_def)

text \<open>No call to an external service touches the dictionary.\<close>

lemma call_fields [simp]:
  "active_transactions (snd (khqr_check_payment E md5 st)) = active_transactions st"
  "active_transactions (snd (bot_delete_message E c m st)) = active_transactions st"
  "active_transactions (snd (bot_send_message E c t st)) = active_transactions st"
  "active_transactions (snd (bot_edit_message_caption E c m cap kb st)) = active_transactions st"
  "active_transactions (snd (bot_answer_callback_query E q st)) = active_transactions st"
  "active_transactions (snd (bot_reply_to E c t st)) = active_transactions st"
  "active_transactions (snd (bot_send_photo E c b cb st)) = active_transactions st"
  by (simp_all add: call_defs)

lemma del_if_present_fields [simp]:
  "active_transactions (del_if_present k st) = AList.delete k (active_transactions st)"
  "trace (del_if_present k st) = trace st"
  by (simp_all add: del_if_present_def has_key_def)

lemma store_transaction_fields [simp]:
  "active_transactions (store_transaction b d st) = AList.update b d (active_transactions st)"
  "trace (store_transaction b d st) = trace st @ [Acquire, Release]"
  by (simp_all add: store_transaction_def)

lemma try_edit_caption_store [simp]:
  "active_transactions (try_edit_caption E c m old mk kb st) = active_transactions st"
  by (simp add: try_edit_caption_def split: option.splits)

lemmas float_defs = double_add_def double_mul_def double_round_def round_half_even_def
  binary_exponent_def pow2_def Let_def

text \<open>
  The rounding at work: the reading \<open>2 ^ 31 - 2 ^ (- 22)\<close> plus 300 lies halfway
  between two doubles and goes to the even one, and a product that is not a double is
  rounded before \<^verbatim>\<open>int\<close> truncates it.
\<close>

lemma double_add_tie: "double_add (9007199254740991 / 4194304) 300 = Finite 2147483948"
  by (simp add: float_defs bit_length.simps)

lemma make_bill_number_rounds:
  "make_bill_number (3695632711682097 / 2097152) = Inr ''TRX1762215000001''"
  by (simp add: make_bill_number_def str_of_int_def digits_of_nat.simps float_defs
        bit_length.simps)

lemma make_bill_number_1: "make_bill_number 1 = Inr ''TRX1000''"
  by (simp add: make_bill_number_def str_of_int_def digits_of_nat.simps float_defs
        bit_length.simps)

lemma make_expiry_time_values:
  "make_expiry_time 1 = Finite 301"
  "make_expiry_time 2 = Finite 302"
  "make_expiry_time 10 = Finite 310"
  "make_expiry_time 40 = Finite 340"
  by (simp_all add: make_expiry_time_def EXPIRATION_SECONDS_def float_defs bit_length.simps)

section \<open>Reconciliation only ever deletes\<close>

text \<open>
  Every entry of the dictionary after a status check, a scheduler pass or a press of the
  confirm button was there before, with the same data: these operations delete entries and
  do nothing else to the dictionary.
\<close>

lemma delete_map_le: "map_of (AList.delete k al) \<subseteq>\<^sub>m map_of al"
  by (simp add: delete_conv' map_le_def)

lemma check_payment_status_store:
  "active_transactions (snd (check_payment_status E b md5 c mid st)) = active_transactions st \<or>
   active_transactions (snd (check_payment_status E b md5 c mid st)) =
     AList.delete b (active_transactions st)"
  by (simp add: check_payment_status_def check_failed_def call_defs Let_def
        split: sum.splits prod.splits)

lemma check_payment_status_kept:
  "map_of (active_transactions (snd (check_payment_status E b md5 c mid st))) \<subseteq>\<^sub>m
   map_of (active_transactions st)"
  using check_payment_status_store [of E b md5 c mid st] delete_map_le [of b "active_transactions st"]
  by auto

lemma check_payment_status_kept_from:
  "active_transactions st' = active_transactions st \<Longrightarrow>
   map_of (active_transactions (snd (check_payment_status E b md5 c mid st'))) \<subseteq>\<^sub>m
   map_of (active_transactions st)"
  using check_payment_status_kept [of E b md5 c mid st'] by simp

lemma process_items_kept:
  "map_of (active_transactions (snd (process_items E now items rm st))) \<subseteq>\<^sub>m
   map_of (active_transactions st)"
proof (induction items arbitrary: rm st)
  case Nil
  show ?case by simp
next
  case (Cons a items)
  obtain b d where a: "a = (b, d)" by (cases a)
  show ?case
  proof (cases "float_less (expiry_time d) (Finite now)")
    case True
    let ?st1 = "if message_id d \<noteq> 0
                then snd (bot_delete_message E (chat_id d) (message_id d) st) else st"
    obtain r st2 where s: "bot_send_message E (chat_id d) (ExpiredText b) ?st1 = (r, st2)"
      by (cases "bot_send_message E (chat_id d) (ExpiredText b) ?st1")
    have "active_transactions (snd (bot_send_message E (chat_id d) (ExpiredText b) ?st1)) =
          active_transactions st"
      by simp
    then have s2: "active_transactions st2 = active_transactions st"
      using s by simp
    show ?thesis
    proof (cases r)
      case (Inl e)
      then show ?thesis using True s s2 by (simp add: a Let_def)
    next
      case (Inr u)
      then show ?thesis using True s s2 Cons.IH [of "rm @ [b]" st2] by (simp add: a Let_def)
    qed
  next
    case False
    obtain r st1 where
      c: "check_payment_status E b (md5_hash d) (chat_id d) (message_id d) st = (r, st1)"
      by (cases "check_payment_status E b (md5_hash d) (chat_id d) (message_id d) st")
    have "map_of (active_transactions st1) \<subseteq>\<^sub>m map_of (active_transactions st)"
      using check_payment_status_kept [of E b "md5_hash d" "chat_id d" "message_id d" st] c
      by simp
    then show ?thesis
      using False c Cons.IH [of "if r then rm @ [b] else rm" st1]
      by (auto simp: a intro: map_le_trans)
  qed
qed

lemma fold_del_kept:
  "map_of (active_transactions (fold del_if_present rm st)) \<subseteq>\<^sub>m map_of (active_transactions st)"
proof (induction rm arbitrary: st)
  case Nil
  show ?case by simp
next
  case (Cons k rm)
  show ?case
    using Cons.IH [of "del_if_present k st"] delete_map_le [of k "active_transactions st"]
    by (auto intro: map_le_trans)
qed

lemma scheduler_pass_kept:
  "map_of (active_transactions (snd (scheduler_pass E now st))) \<subseteq>\<^sub>m
   map_of (active_transactions st)"
proof -
  let ?st1 = "emit Release (emit Acquire st)"
  obtain r st2 where p: "process_items E now (active_transactions st) [] ?st1 = (r, st2)"
    by (cases "process_items E now (active_transactions st) [] ?st1")
  have k: "map_of (active_transactions st2) \<subseteq>\<^sub>m map_of (active_transactions st)"
    using process_items_kept [of E now "active_transactions st" "[]" ?st1] p by simp
  show ?thesis
  proof (cases r)
    case (Inl e)
    then show ?thesis
      using p k by (simp add: scheduler_pass_def take_snapshot_def finish_pass_def)
  next
    case (Inr rm)
    then show ?thesis
      using p k fold_del_kept [of rm "emit Acquire st2"]
      by (auto simp: scheduler_pass_def take_snapshot_def finish_pass_def remove_marked_def
            intro: map_le_trans)
  qed
qed

lemma handle_confirm_payment_kept:
  "map_of (active_transactions (snd (handle_confirm_payment E call st))) \<subseteq>\<^sub>m
   map_of (active_transactions st)"
  by (simp add: handle_confirm_payment_def Let_def case_prod_beta check_payment_status_kept_from
        split: sum.splits option.splits)

section \<open>What the /pay command stores\<close>

lemma pay_body_store:
  "active_transactions (snd (pay_body E t_ref t_bill t_exp m st)) = active_transactions st
   \<or> (\<exists>bill md5 mid. make_bill_number t_bill = Inr bill \<and>
        active_transactions (snd (pay_body E t_ref t_bill t_exp m st)) =
        AList.update bill
          \<lparr>md5_hash = md5, expiry_time = make_expiry_time t_exp,
           chat_id = msg_chat_id m, message_id = mid\<rparr> (active_transactions st))"
proof -
  define ins where "ins al \<longleftrightarrow>
     al = active_transactions st
   \<or> (\<exists>bill md5 mid. make_bill_number t_bill = Inr bill \<and>
        al =
        AList.update bill
          \<lparr>md5_hash = md5, expiry_time = make_expiry_time t_exp,
           chat_id = msg_chat_id m, message_id = mid\<rparr> (active_transactions st))"
    for al :: transactions
  have same: "ins (active_transactions st)"
    by (simp add: ins_def)
  have new: "ins (AList.update bill
                    \<lparr>md5_hash = md5, expiry_time = make_expiry_time t_exp,
                     chat_id = msg_chat_id m, message_id = mid\<rparr> (active_transactions st))"
    if "make_bill_number t_bill = Inr bill" for bill md5 mid
    using that unfolding ins_def by blast
  have "ins (active_transactions (snd (pay_body E t_ref t_bill t_exp m st)))"
    unfolding pay_body_def Let_def case_prod_beta
    by (simp add: same new split: sum.splits option.splits)
  then show ?thesis by (simp add: ins_def)
qed

lemma generate_khqr_payment_store_eq:
  "active_transactions (snd (generate_khqr_payment E t_ref t_bill t_exp m st)) =
     (if khqr_client_ok E then active_transactions (snd (pay_body E t_ref t_bill t_exp m st))
      else active_transactions st)"
  by (simp add: generate_khqr_payment_def case_prod_beta split: sum.splits exn.splits)

lemma generate_khqr_payment_store:
  "active_transactions (snd (generate_khqr_payment E t_ref t_bill t_exp m st)) = active_transactions st
   \<or> (\<exists>bill md5 mid. make_bill_number t_bill = Inr bill \<and>
        active_transactions (snd (generate_khqr_payment E t_ref t_bill t_exp m st)) =
        AList.update bill
          \<lparr>md5_hash = md5, expiry_time = make_expiry_time t_exp,
           chat_id = msg_chat_id m, message_id = mid\<rparr> (active_transactions st))"
  using pay_body_store [of E t_ref t_bill t_exp m st]
  by (simp add: generate_khqr_payment_store_eq)

section \<open>The scheduler pass: what holds in general\<close>

text \<open>
  A status check that raises always sends the check-error text, whoever called. A pass over
  records none of which is expired cannot raise, whatever the services do; a pass in which
  the expiry text can be sent cannot raise either, and it removes every expired record of
  its snapshot. An expired record at the head of the loop is handled without a status check.
\<close>

lemma check_payment_status_oracle_failure:
  "check_payment E (trace st) md5 = Inl e \<Longrightarrow>
   check_payment_status E bill_number md5 chat msg st =
     (False, st\<lparr>trace := trace st @ [CheckPayment md5, SendMessage chat CheckError]\<rparr>)"
  by (simp add: check_payment_status_def check_failed_def call_defs)

lemma process_items_unexpired_returns:
  "\<forall>(b, d) \<in> set items. \<not> float_less (expiry_time d) (Finite now) \<Longrightarrow>
   \<exists>rm'. fst (process_items E now items rm st) = Inr rm'"
proof (induction items arbitrary: rm st)
  case Nil
  show ?case by simp
next
  case (Cons a items)
  obtain b d where a: "a = (b, d)" by (cases a)
  from Cons.prems have rest: "\<forall>(b, d) \<in> set items. \<not> float_less (expiry_time d) (Finite now)" and
    here: "\<not> float_less (expiry_time d) (Finite now)"
    by (auto simp: a)
  show ?case
    using here Cons.IH [OF rest] by (simp add: a case_prod_beta)
qed

lemma process_items_send_ok_returns:
  assumes "\<And>h c b. send_message E h c (ExpiredText b) = Inr ()"
  shows "\<exists>rm'. fst (process_items E now items rm st) = Inr rm'"
proof (induction items arbitrary: rm st)
  case Nil
  show ?case by simp
next
  case (Cons a items)
  obtain b d where a: "a = (b, d)" by (cases a)
  show ?case
    using Cons.IH by (simp add: a case_prod_beta Let_def bot_send_message_def assms)
qed

lemma process_items_marks:
  assumes "fst (process_items E now items rm st) = Inr rm'"
  shows "set rm \<union> {b. \<exists>d. (b, d) \<in> set items \<and> float_less (expiry_time d) (Finite now)} \<subseteq> set rm'"
  using assms
proof (induction items arbitrary: rm st)
  case Nil
  then show ?case by simp
next
  case (Cons a items)
  obtain b d where a: "a = (b, d)" by (cases a)
  show ?case
  proof (cases "float_less (expiry_time d) (Finite now)")
    case True
    let ?st1 = "if message_id d \<noteq> 0
                then snd (bot_delete_message E (chat_id d) (message_id d) st) else st"
    obtain r st2 where s: "bot_send_message E (chat_id d) (ExpiredText b) ?st1 = (r, st2)"
      by (cases "bot_send_message E (chat_id d) (ExpiredText b) ?st1")
    show ?thesis
    proof (cases r)
      case (Inl e)
      then show ?thesis using Cons.prems True s by (simp add: a Let_def)
    next
      case (Inr u)
      then have "fst (process_items E now items (rm @ [b]) st2) = Inr rm'"
        using Cons.prems True s by (simp add: a Let_def)
      from Cons.IH [OF this] show ?thesis by (auto simp: a)
    qed
  next
    case False
    obtain r st1 where
      c: "check_payment_status E b (md5_hash d) (chat_id d) (message_id d) st = (r, st1)"
      by (cases "check_payment_status E b (md5_hash d) (chat_id d) (message_id d) st")
    have "fst (process_items E now items (if r then rm @ [b] else rm) st1) = Inr rm'"
      using Cons.prems False c by (simp add: a)
    from Cons.IH [OF this] show ?thesis using False by (auto simp: a split: if_splits)
  qed
qed

lemma fold_del_keys:
  "fst ` set (active_transactions (fold del_if_present rm st)) =
   fst ` set (active_transactions st) - set rm"
proof (induction rm arbitrary: st)
  case Nil
  show ?case by simp
next
  case (Cons k rm)
  have "fst ` set (AList.delete k (active_transactions st)) =
        fst ` set (active_transactions st) - {k}"
    by (metis delete_keys list.set_map set_removeAll)
  then show ?case using Cons.IH [of "del_if_present k st"] by auto
qed

lemma scheduler_pass_removes_expired:
  assumes ok: "fst (scheduler_pass E now st) = Inr ()"
    and rec: "(b, d) \<in> set (active_transactions st)" and exp: "float_less (expiry_time d) (Finite now)"
  shows "\<not> has_key (active_transactions (snd (scheduler_pass E now st))) b"
proof -
  let ?st1 = "emit Release (emit Acquire st)"
  obtain r st2 where p: "process_items E now (active_transactions st) [] ?st1 = (r, st2)"
    by (cases "process_items E now (active_transactions st) [] ?st1")
  from ok p obtain rm where r: "r = Inr rm"
    by (cases r) (simp_all add: scheduler_pass_def take_snapshot_def finish_pass_def)
  have "b \<in> set rm"
    using process_items_marks [of E now "active_transactions st" "[]" ?st1 rm] p r rec exp
    by auto
  then have "b \<notin> fst ` set (active_transactions (fold del_if_present rm (emit Acquire st2)))"
    by (simp add: fold_del_keys)
  then show ?thesis
    using p r
    by (simp add: scheduler_pass_def take_snapshot_def finish_pass_def remove_marked_def has_key_def)
qed

lemma scheduler_pass_send_ok_returns:
  assumes "\<And>h c b. send_message E h c (ExpiredText b) = Inr ()"
  shows "fst (scheduler_pass E now st) = Inr ()"
  using process_items_send_ok_returns [OF assms, of now "active_transactions st" "[]"
          "emit Release (emit Acquire st)"]
  by (auto simp: scheduler_pass_def take_snapshot_def finish_pass_def case_prod_beta
        split: sum.splits)

lemma process_items_expired_head:
  assumes "float_less (expiry_time d) (Finite now)"
    and "send_message E
           (trace st @ (if message_id d \<noteq> 0 then [DeleteMessage (chat_id d) (message_id d)] else []))
           (chat_id d) (ExpiredText b) = Inr ()"
  shows "process_items E now ((b, d) # items) rm st =
           process_items E now items (rm @ [b])
             (st\<lparr>trace := trace st @
                (if message_id d \<noteq> 0 then [DeleteMessage (chat_id d) (message_id d)] else []) @
                [SendMessage (chat_id d) (ExpiredText b)]\<rparr>)"
proof (cases "message_id d = 0")
  case True
  then show ?thesis using assms by (simp add: call_defs Let_def)
next
  case False
  then show ?thesis using assms by (simp add: call_defs Let_def)
qed

section \<open>Properties\<close>


text \<open>
  C10. Encoding a bill number into the callback data of the confirm button (the prefix
  followed by the bill number) and decoding it by dropping as many characters as the
  prefix has gives back the bill number.
\<close>

theorem callback_roundtrip:
  "bill_number_of_callback (callback_data_of bill_number) = bill_number"
  by (simp add: bill_number_of_callback_def callback_data_of_def)

text \<open>
  C1. The claim: however many reconcile invocations race on one transaction id while the
  payment network reports PAID, exactly one of them notifies and the record is removed once.

  The scheduler works on a snapshot. In the run below the scheduler has taken its snapshot
  of a dictionary holding \<open>TRX1\<close> (lines 117-119), the confirm button of \<open>TRX1\<close> is then
  pressed and its handler runs to the end, and the scheduler goes on with its
  \<^verbatim>\<open>for\<close> loop over the snapshot (lines 121-158). The success text for \<open>TRX1\<close> is
  sent twice.
\<close>

theorem stale_snapshot_notifies_twice:
  "count_list
     (trace (snd (finish_pass world_paid 500 (fst (take_snapshot one_transaction))
        (snd (handle_confirm_payment world_paid press1 (snd (take_snapshot one_transaction)))))))
     (SendMessage 5 (PaymentCompleted ''TRX1'' ''PAID'')) = 2"
  by (simp add: run_defs input_defs)

text \<open>
  C1, as the code has it. Every invocation of \<^verbatim>\<open>check_payment_status\<close> to which the
  payment network answers PAID, and whose success text the bot accepts, sends that text
  itself, once, whatever other invocations did before; it returns \<^verbatim>\<open>True\<close>, and
  when it returns the bill number is not in the dictionary. The external calls it makes are
  the status check, the deletion of the QR message when there is one, and the success text,
  in this order; the deletion from the dictionary is made last, under the lock.
\<close>

theorem paid_check_notifies_and_removes:
  assumes "check_payment E (trace st) md5 = Inr ''PAID''"
    and "send_message E
           (trace st @ CheckPayment md5 # (if msg \<noteq> 0 then [DeleteMessage chat msg] else []))
           chat (PaymentCompleted bill_number ''PAID'') = Inr ()"
  shows "check_payment_status E bill_number md5 chat msg st =
           (True,
            \<lparr>active_transactions = AList.delete bill_number (active_transactions st),
             trace = trace st @ CheckPayment md5 #
                       (if msg \<noteq> 0 then [DeleteMessage chat msg] else []) @
                       [SendMessage chat (PaymentCompleted bill_number ''PAID''),
                        Acquire, Release]\<rparr>)
         \<and> \<not> has_key (AList.delete bill_number (active_transactions st)) bill_number"
proof (cases "msg = 0")
  case True
  then show ?thesis
    using assms
    by (simp add: check_payment_status_def call_defs del_if_present_def has_key_def
          delete_notin_dom Let_def)
next
  case False
  then show ?thesis
    using assms
    by (simp add: check_payment_status_def call_defs del_if_present_def has_key_def
          delete_notin_dom Let_def)
qed

theorem paid_check_notifies_and_removes_witness:
  "check_payment world_paid (trace one_transaction) ''m1'' = Inr ''PAID''
   \<and> check_payment_status world_paid ''TRX1'' ''m1'' 5 9 one_transaction =
       (True, \<lparr>active_transactions = [],
               trace = [CheckPayment ''m1'', DeleteMessage 5 9,
                        SendMessage 5 (PaymentCompleted ''TRX1'' ''PAID''), Acquire, Release]\<rparr>)"
  using paid_check_notifies_and_removes [of world_paid one_transaction "''m1''" 9 5 "''TRX1''"]
  by (simp add: input_defs)

text \<open>
  C2. The claim: a record whose deadline has passed yields EXPIRED on any reconciliation
  attempt, from the scheduler or from the confirm button, whatever the payment network
  says.

  The record of \<open>TRX1\<close> has the deadline 1000. A scheduler pass at time 2000 takes the
  expiry branch: it sends the expiry text and never asks the payment network. A press of the
  confirm button on the same dictionary reads no clock at all (lines 280-339): it asks the
  payment network and, on PAID, sends the success text.
\<close>

theorem button_confirms_expired_record:
  "float_less (expiry_time tx1) (Finite 2000)
   \<and> scheduler_pass world_paid 2000 one_transaction =
       (Inr (), \<lparr>active_transactions = [],
                 trace = [Acquire, Release, DeleteMessage 5 9,
                          SendMessage 5 (ExpiredText ''TRX1''), Acquire, Release, Sleep 30]\<rparr>)
   \<and> handle_confirm_payment world_paid press1 one_transaction =
       (Inr (), \<lparr>active_transactions = [],
                 trace = [AnswerCallbackQuery ''q1'', Acquire, Release, CheckPayment ''m1'',
                          DeleteMessage 5 9,
                          SendMessage 5 (PaymentCompleted ''TRX1'' ''PAID''),
                          Acquire, Release]\<rparr>)"
  by (simp add: run_defs input_defs)

text \<open>
  C3. The claim: a status check that fails during a scheduler pass sends nothing to the
  user.

  With the payment network unreachable, a scheduler pass at time 500 over the pending record
  of \<open>TRX1\<close> (deadline 1000) leaves the record in place and sends the check-error text to
  the user's chat: the \<^verbatim>\<open>except\<close> handler of \<^verbatim>\<open>check_payment_status\<close>,
  commented "Notify the user that the manual check failed", runs for the scheduler as well.
\<close>

theorem scheduler_reports_check_error:
  "scheduler_pass world_oracle_down 500 one_transaction =
     (Inr (), \<lparr>active_transactions = [(''TRX1'', tx1)],
               trace = [Acquire, Release, CheckPayment ''m1'', SendMessage 5 CheckError,
                        Acquire, Release, Sleep 30]\<rparr>)"
  by (simp add: run_defs input_defs)

text \<open>
  C4. The claim: an error while reconciling one record, the failure of the expiry
  notification included, neither aborts the pass for the other records nor ends the
  scheduler's loop.

  With the bot unable to send, the scheduler is run for the ticks 2000 and 2030 over
  \<open>TRX1\<close> (deadline 1000) and \<open>TRX2\<close> (deadline 5000). The expiry text of \<open>TRX1\<close>
  raises at line 138, outside any \<^verbatim>\<open>try\<close>: the exception leaves the loop and the
  thread. \<open>TRX2\<close> is never checked, nothing is removed, and the second tick never runs.
\<close>

theorem expiry_send_failure_ends_scheduler:
  "check_and_cleanup_transactions world_send_down [2000, 2030] two_transactions =
     (Inl OtherError,
      \<lparr>active_transactions = [(''TRX1'', tx1), (''TRX2'', tx2)],
       trace = [Acquire, Release, DeleteMessage 5 9, SendMessage 5 (ExpiredText ''TRX1'')]\<rparr>)"
  by (simp add: run_defs input_defs)

text \<open>
  C5. The claim: the lock is never held while an external call is in progress, in any path.

  A press of the confirm button for a bill number that is not in the dictionary edits the
  caption and sends the not-tracked text inside \<^verbatim>\<open>with transaction_lock\<close>
  (lines 290-309): both calls are made between the acquisition and the release.
\<close>

theorem untracked_press_calls_under_lock:
  "trace (snd (handle_confirm_payment world_paid press1 no_transactions)) =
     [AnswerCallbackQuery ''q1'', Acquire,
      EditMessageCaption 5 9 (NoLongerCheckable ''caption'') False,
      SendMessage 5 (NotTracked ''TRX1''), Release]
   \<and> call_under_lock False (trace (snd (handle_confirm_payment world_paid press1 no_transactions)))"
  by (simp add: run_defs input_defs)

text \<open>
  C6. The claim: a press of the confirm button for an id that is not in the dictionary gives
  the not-tracked outcome with no change of the dictionary and no notification call.

  The handler does call the bot: it sends the not-tracked text.
\<close>

theorem untracked_press_sends_message:
  "SendMessage 5 (NotTracked ''TRX1'')
     \<in> set (trace (snd (handle_confirm_payment world_paid press1 no_transactions)))"
  by (simp add: run_defs input_defs)

text \<open>
  C6, as the code has it. A press of the confirm button for a bill number that is not in the
  dictionary leaves the dictionary as it is and makes no status check. The handler returns no
  value; it tells the user the outcome through the bot. When answering the callback query
  raises, nothing else is done. Otherwise, under the lock, the handler tries once to mark the
  caption of the pressed message as no longer checkable (nothing is sent for a message
  without caption, and a failure of the edit is ignored) and then sends the not-tracked text
  once.
\<close>

theorem untracked_press_reports:
  assumes "\<not> has_key (active_transactions st) (bill_number_of_callback (call_data call))"
  shows "active_transactions (snd (handle_confirm_payment E call st)) = active_transactions st
     \<and> filter is_check_payment (trace (snd (handle_confirm_payment E call st))) =
         filter is_check_payment (trace st)
     \<and> trace (snd (handle_confirm_payment E call st)) =
         trace st @ AnswerCallbackQuery (call_id call) #
           (case answer_callback_query E (trace st) (call_id call) of
              Inl e \<Rightarrow> []
            | Inr u \<Rightarrow>
                Acquire #
                (case call_caption call of
                   None \<Rightarrow> []
                 | Some cap \<Rightarrow>
                     [EditMessageCaption (call_chat_id call) (call_message_id call)
                        (NoLongerCheckable cap) False]) @
                [SendMessage (call_chat_id call)
                   (NotTracked (bill_number_of_callback (call_data call))),
                 Release])"
  using assms
  by (simp add: handle_confirm_payment_def try_edit_caption_def call_defs Let_def case_prod_beta
        split: sum.splits option.splits)

theorem untracked_press_reports_witness:
  "\<not> has_key (active_transactions no_transactions) (bill_number_of_callback (call_data press1))
   \<and> active_transactions (snd (handle_confirm_payment world_paid press1 no_transactions)) = []
   \<and> filter is_check_payment
       (trace (snd (handle_confirm_payment world_paid press1 no_transactions))) = []
   \<and> trace (snd (handle_confirm_payment world_paid press1 no_transactions)) =
       [AnswerCallbackQuery ''q1'', Acquire,
        EditMessageCaption 5 9 (NoLongerCheckable ''caption'') False,
        SendMessage 5 (NotTracked ''TRX1''), Release]"
  using untracked_press_reports [of no_transactions press1 world_paid]
  by (simp add: input_defs has_key_def bill_number_of_callback_def CONFIRM_CALLBACK_PREFIX_def)

text \<open>
  C7. The claim: inserting under an id that is already present signals an error and leaves
  the existing record as it is.

  Two \<^verbatim>\<open>/pay\<close> commands whose bill numbers are computed from the same clock reading
  get the same bill number \<open>TRX1000\<close>. After the first the dictionary holds the record
  with deadline 301 and message 1; the second returns normally and the dictionary holds,
  under the same key, the record with deadline 302 and message 5.
\<close>

theorem duplicate_bill_number_overwritten:
  "active_transactions (snd (generate_khqr_payment world_paid 1 1 1 pay5000 no_transactions)) =
     [(''TRX1000'', \<lparr>md5_hash = ''md5:khqr:TRX1000'', expiry_time = Finite 301,
                     chat_id = 5, message_id = 1\<rparr>)]
   \<and> generate_khqr_payment world_paid 1 1 2 pay5000
       (snd (generate_khqr_payment world_paid 1 1 1 pay5000 no_transactions)) =
       (Inr (),
        \<lparr>active_transactions =
           [(''TRX1000'', \<lparr>md5_hash = ''md5:khqr:TRX1000'', expiry_time = Finite 302,
                           chat_id = 5, message_id = 5\<rparr>)],
         trace =
           [ReplyTo 5 (Generating (Finite 5000) ''TRX1000''),
            SendPhoto 5 ''TRX1000'' ''confirm_TRX1000'', Acquire, Release,
            ReplyTo 5 (Generating (Finite 5000) ''TRX1000''),
            SendPhoto 5 ''TRX1000'' ''confirm_TRX1000'', Acquire, Release]\<rparr>)"
  by (simp add: run_defs input_defs make_bill_number_1 make_expiry_time_values)

text \<open>
  C7, as the code has it. The insertion is a plain dictionary assignment: afterwards the
  bill number maps to the new record, whether or not it was present, and every other bill
  number maps to what it mapped to before. A bill number that was present keeps its place and
  stays single; a new one is added at the end. No error is signalled.
\<close>

theorem insert_overwrites:
  "map_of (active_transactions (store_transaction bill_number d st)) =
     (map_of (active_transactions st))(bill_number \<mapsto> d)
   \<and> map fst (active_transactions (store_transaction bill_number d st)) =
       (if has_key (active_transactions st) bill_number
        then map fst (active_transactions st)
        else map fst (active_transactions st) @ [bill_number])"
  by (simp add: update_conv' update_keys has_key_def)

text \<open>
  C8. The claim: in every scheduler pass a record whose deadline has passed gets exactly one
  expiry notification, is removed from the dictionary, and is not checked with the payment
  network.

  With the bot unable to send, a pass at time 6000 over \<open>TRX1\<close> (deadline 1000) and
  \<open>TRX2\<close> (deadline 5000) ends with the exception raised by the expiry text of \<open>TRX1\<close>:
  both records are still in the dictionary, and no expiry text was sent for \<open>TRX2\<close>.
\<close>

theorem expired_records_kept_when_send_fails:
  "float_less (expiry_time tx1) (Finite 6000) \<and> float_less (expiry_time tx2) (Finite 6000)
   \<and> scheduler_pass world_send_down 6000 two_transactions =
       (Inl OtherError,
        \<lparr>active_transactions = [(''TRX1'', tx1), (''TRX2'', tx2)],
         trace = [Acquire, Release, DeleteMessage 5 9, SendMessage 5 (ExpiredText ''TRX1'')]\<rparr>)"
  by (simp add: run_defs input_defs)

text \<open>
  C9. The claim: the deadline of a record created by \<^verbatim>\<open>/pay\<close> is its creation
  timestamp plus 300 seconds, and it is never changed after insertion.

  A later \<^verbatim>\<open>/pay\<close> whose bill number is computed from the same clock reading writes
  over the record: the deadline stored under \<open>TRX1000\<close> is 310 after the first command and
  340 after the second. And the sum is a sum of doubles: for the reading
  \<open>2 ^ 31 - 2 ^ (- 22)\<close> the deadline stored is 2147483948, not the reading plus 300.
\<close>

theorem deadline_replaced_by_later_pay:
  "map_option expiry_time
     (map_of (active_transactions
        (snd (generate_khqr_payment world_paid 1 1 10 pay5000 no_transactions))) ''TRX1000'')
     = Some (Finite 310)
   \<and> map_option expiry_time
       (map_of (active_transactions
          (snd (generate_khqr_payment world_paid 1 1 40 pay5000
             (snd (generate_khqr_payment world_paid 1 1 10 pay5000 no_transactions)))))
          ''TRX1000'')
       = Some (Finite 340)
   \<and> make_expiry_time (9007199254740991 / 4194304) = Finite 2147483948
   \<and> (9007199254740991 / 4194304 + 300 :: real) \<noteq> 2147483948"
proof -
  have "make_expiry_time (9007199254740991 / 4194304) = Finite 2147483948"
    by (simp add: make_expiry_time_def EXPIRATION_SECONDS_def float_defs bit_length.simps)
  moreover have "(9007199254740991 / 4194304 + 300 :: real) \<noteq> 2147483948"
    by simp
  moreover have "map_option expiry_time
     (map_of (active_transactions
        (snd (generate_khqr_payment world_paid 1 1 10 pay5000 no_transactions))) ''TRX1000'')
     = Some (Finite 310)"
    by (simp add: run_defs input_defs make_bill_number_1 make_expiry_time_values)
  moreover have "map_option expiry_time
       (map_of (active_transactions
          (snd (generate_khqr_payment world_paid 1 1 40 pay5000
             (snd (generate_khqr_payment world_paid 1 1 10 pay5000 no_transactions)))))
          ''TRX1000'')
       = Some (Finite 340)"
    by (simp add: run_defs input_defs make_bill_number_1 make_expiry_time_values)
  ultimately show ?thesis by blast
qed

text \<open>
  C9, as the code has it. \<^verbatim>\<open>EXPIRATION_SECONDS\<close> is 300. Whatever a
  \<^verbatim>\<open>/pay\<close> command adds to or changes in the dictionary is one record, under the
  command's own bill number, and its deadline is the sum, rounded to a double, of the clock
  reading of line 196 and 300; the record has no other timestamp. A record already stored
  under that bill number is replaced, deadline included. A status check, a scheduler pass
  and a press of the confirm button leave every record that is still in the dictionary
  afterwards exactly as it was.
\<close>

theorem deadline_of_stored_record:
  "EXPIRATION_SECONDS = 300
   \<and> (map_of (active_transactions (snd (generate_khqr_payment E t_ref t_bill t_exp m st))) k = Some d
        \<longrightarrow> map_of (active_transactions st) k \<noteq> Some d
        \<longrightarrow> make_bill_number t_bill = Inr k \<and> expiry_time d = double_round (t_exp + 300))
   \<and> (map_of (active_transactions (snd (check_payment_status E b h c mid st))) k = Some d
        \<longrightarrow> map_of (active_transactions st) k = Some d)
   \<and> (map_of (active_transactions (snd (scheduler_pass E now st))) k = Some d
        \<longrightarrow> map_of (active_transactions st) k = Some d)
   \<and> (map_of (active_transactions (snd (handle_confirm_payment E call st))) k = Some d
        \<longrightarrow> map_of (active_transactions st) k = Some d)"
proof -
  have secs: "EXPIRATION_SECONDS = 300"
    by (simp add: EXPIRATION_SECONDS_def)
  have le: "f k = Some d \<longrightarrow> g k = Some d" if "f \<subseteq>\<^sub>m g" for f g :: "string \<rightharpoonup> transaction"
    using that by (auto simp: map_le_def dom_def)
  have pay: "make_bill_number t_bill = Inr k \<and> expiry_time d = double_round (t_exp + 300)"
    if new: "map_of (active_transactions (snd (generate_khqr_payment E t_ref t_bill t_exp m st))) k
               = Some d"
      and old: "map_of (active_transactions st) k \<noteq> Some d"
  proof -
    from generate_khqr_payment_store [of E t_ref t_bill t_exp m st] new old
    obtain bill md5 mid where bill: "make_bill_number t_bill = Inr bill" and
      "active_transactions (snd (generate_khqr_payment E t_ref t_bill t_exp m st)) =
         AList.update bill
           \<lparr>md5_hash = md5, expiry_time = make_expiry_time t_exp,
            chat_id = msg_chat_id m, message_id = mid\<rparr> (active_transactions st)"
      by auto
    with new have
      "((map_of (active_transactions st))(bill \<mapsto>
          \<lparr>md5_hash = md5, expiry_time = make_expiry_time t_exp,
           chat_id = msg_chat_id m, message_id = mid\<rparr>)) k = Some d"
      by (simp add: update_conv')
    with old bill show ?thesis
      by (auto simp: secs make_expiry_time_def double_add_def split: if_splits)
  qed
  show ?thesis
    using secs pay
      le [OF check_payment_status_kept [of E b h c mid st]]
      le [OF scheduler_pass_kept [of E now st]]
      le [OF handle_confirm_payment_kept [of E call st]]
    by blast
qed

theorem deadline_of_stored_record_witness:
  "map_of (active_transactions (snd (generate_khqr_payment world_paid 1 1 1 pay5000 no_transactions)))
     ''TRX1000''
     = Some \<lparr>md5_hash = ''md5:khqr:TRX1000'', expiry_time = Finite 301, chat_id = 5,
             message_id = 1\<rparr>
   \<and> map_of (active_transactions no_transactions) ''TRX1000''
       \<noteq> Some \<lparr>md5_hash = ''md5:khqr:TRX1000'', expiry_time = Finite 301, chat_id = 5,
               message_id = 1\<rparr>
   \<and> make_bill_number 1 = Inr ''TRX1000''
   \<and> Finite 301 = double_round (1 + 300)
   \<and> map_of (active_transactions
        (snd (check_payment_status world_oracle_down ''TRX1'' ''m1'' 5 9 one_transaction))) ''TRX1''
       = Some tx1
   \<and> map_of (active_transactions (snd (scheduler_pass world_oracle_down 500 one_transaction)))
       ''TRX1'' = Some tx1
   \<and> map_of (active_transactions
        (snd (handle_confirm_payment world_oracle_down press1 one_transaction))) ''TRX1''
       = Some tx1
   \<and> map_of (active_transactions one_transaction) ''TRX1'' = Some tx1"
proof -
  let ?d = "\<lparr>md5_hash = ''md5:khqr:TRX1000'', expiry_time = Finite 301, chat_id = 5,
             message_id = 1\<rparr>"
  have new: "map_of (active_transactions
               (snd (generate_khqr_payment world_paid 1 1 1 pay5000 no_transactions))) ''TRX1000''
             = Some ?d"
    by (simp add: run_defs input_defs make_bill_number_1 make_expiry_time_values)
  have old: "map_of (active_transactions no_transactions) ''TRX1000'' \<noteq> Some ?d"
    by (simp add: no_transactions_def)
  have a: "map_of (active_transactions
        (snd (check_payment_status world_oracle_down ''TRX1'' ''m1'' 5 9 one_transaction))) ''TRX1''
       = Some tx1"
    by (simp add: run_defs input_defs)
  have b: "map_of (active_transactions (snd (scheduler_pass world_oracle_down 500 one_transaction)))
       ''TRX1'' = Some tx1"
    by (simp add: run_defs input_defs)
  have c: "map_of (active_transactions
        (snd (handle_confirm_payment world_oracle_down press1 one_transaction))) ''TRX1''
       = Some tx1"
    by (simp add: run_defs input_defs)
  from deadline_of_stored_record [where E = world_paid and t_ref = 1 and t_bill = 1 and t_exp = 1
      and m = pay5000 and st = no_transactions and k = "''TRX1000''" and d = ?d] new old
  have p: "make_bill_number 1 = Inr ''TRX1000'' \<and> Finite 301 = double_round (1 + 300)"
    by simp
  from deadline_of_stored_record [where E = world_oracle_down and st = one_transaction
      and k = "''TRX1''" and d = tx1 and b = "''TRX1''" and h = "''m1''" and c = 5 and mid = 9
      and now = 500 and call = press1] a
  have q: "map_of (active_transactions one_transaction) ''TRX1'' = Some tx1"
    by blast
  from new old p a b c q show ?thesis by blast
qed

end
